theory Spec2Isabelle
  imports Main "HOL-Library.Word"
begin

unbundle bit_operations_syntax

section \<open>Device object archive: data model\<close>

text \<open>
  A shallow embedding of \<^verbatim>\<open>DeviceObjectArchive.hpp\<close>. \<^verbatim>\<open>Uint32\<close> is a 32-bit
  word, \<^verbatim>\<open>Uint8\<close> a byte. An \<^verbatim>\<open>enum class\<close> is a datatype of its enumerators; where
  the enumerator \<^verbatim>\<open>Count\<close> only gives the length of a \<^verbatim>\<open>std::array\<close> (device types and
  block offset types), the array is a function from the proper enumerators and
  \<^verbatim>\<open>Count\<close> is a number of its own.
\<close>

type_synonym Uint32 = "32 word"
type_synonym Uint8 = "8 word"

datatype DeviceType = OpenGL | Direct3D11 | Direct3D12 | Vulkan | Metal_MacOS | Metal_iOS

definition DeviceType_Count :: nat where
  "DeviceType_Count = 6"

text \<open>\<^verbatim>\<open>static_cast<size_t>(DevType)\<close>.\<close>

fun DeviceType_index :: "DeviceType \<Rightarrow> nat" where
  "DeviceType_index OpenGL = 0"
| "DeviceType_index Direct3D11 = 1"
| "DeviceType_index Direct3D12 = 2"
| "DeviceType_index Vulkan = 3"
| "DeviceType_index Metal_MacOS = 4"
| "DeviceType_index Metal_iOS = 5"

definition AllDeviceTypes :: "DeviceType list" where
  "AllDeviceTypes = [OpenGL, Direct3D11, Direct3D12, Vulkan, Metal_MacOS, Metal_iOS]"

definition HeaderMagicNumber :: Uint32 where
  "HeaderMagicNumber = 0xDE00000A"

definition HeaderVersion :: Uint32 where
  "HeaderVersion = 2"

text \<open>\<^verbatim>\<open>DataPtrAlign = sizeof(Uint64)\<close>.\<close>

definition DataPtrAlign :: nat where
  "DataPtrAlign = 8"

datatype BlockOffsetType =
  Block_OpenGL | Block_Direct3D11 | Block_Direct3D12 | Block_Vulkan | Block_Metal_MacOS | Block_Metal_iOS

definition BlockOffsetType_Count :: nat where
  "BlockOffsetType_Count = 6"

fun BlockOffsetType_index :: "BlockOffsetType \<Rightarrow> nat" where
  "BlockOffsetType_index Block_OpenGL = 0"
| "BlockOffsetType_index Block_Direct3D11 = 1"
| "BlockOffsetType_index Block_Direct3D12 = 2"
| "BlockOffsetType_index Block_Vulkan = 3"
| "BlockOffsetType_index Block_Metal_MacOS = 4"
| "BlockOffsetType_index Block_Metal_iOS = 5"

type_synonym TBlockBaseOffsets = "BlockOffsetType \<Rightarrow> Uint32"

datatype ChunkType =
  Undefined | ArchiveDebugInfo | ResourceSignature | GraphicsPipelineStates
  | ComputePipelineStates | RayTracingPipelineStates | TilePipelineStates
  | RenderPass | Shaders | Count

text \<open>
  The underlying value of a chunk type (\<^verbatim>\<open>enum class ChunkType : Uint32\<close>). A header
  that is a view of archive bytes holds this value, which may be that of no enumerator.
\<close>

fun ChunkType_value :: "ChunkType \<Rightarrow> Uint32" where
  "ChunkType_value Undefined = 0"
| "ChunkType_value ArchiveDebugInfo = 1"
| "ChunkType_value ResourceSignature = 2"
| "ChunkType_value GraphicsPipelineStates = 3"
| "ChunkType_value ComputePipelineStates = 4"
| "ChunkType_value RayTracingPipelineStates = 5"
| "ChunkType_value TilePipelineStates = 6"
| "ChunkType_value RenderPass = 7"
| "ChunkType_value Shaders = 8"
| "ChunkType_value Count = 9"

subsection \<open>Sizes of the header structs\<close>

text \<open>
  The members of a struct as the compiler lays them out: every member at the next offset
  that is a multiple of its alignment, the struct's size rounded up to its own alignment
  (the largest of its members'). A struct that derives from another and declares no
  member has the members of its base.
\<close>

datatype ctype = Uint32_t | Enum_Uint32_t | Array_t ctype nat

fun sizeof :: "ctype \<Rightarrow> nat" where
  "sizeof Uint32_t = 4"
| "sizeof Enum_Uint32_t = 4"
| "sizeof (Array_t t n) = n * sizeof t"

fun alignof :: "ctype \<Rightarrow> nat" where
  "alignof Uint32_t = 4"
| "alignof Enum_Uint32_t = 4"
| "alignof (Array_t t n) = alignof t"

definition align_up :: "nat \<Rightarrow> nat \<Rightarrow> nat" where
  "align_up n a = ((n + a - 1) div a) * a"

fun members_end :: "nat \<Rightarrow> ctype list \<Rightarrow> nat" where
  "members_end off [] = off"
| "members_end off (t # ts) = members_end (align_up off (alignof t) + sizeof t) ts"

fun member_offsets :: "nat \<Rightarrow> ctype list \<Rightarrow> nat list" where
  "member_offsets off [] = []"
| "member_offsets off (t # ts) =
     align_up off (alignof t) # member_offsets (align_up off (alignof t) + sizeof t) ts"

definition struct_alignof :: "ctype list \<Rightarrow> nat" where
  "struct_alignof ts = fold max (map alignof ts) 1"

definition struct_sizeof :: "ctype list \<Rightarrow> nat" where
  "struct_sizeof ts = align_up (members_end 0 ts) (struct_alignof ts)"

text \<open>The three static assertions of the macro \<^verbatim>\<open>CHECK_HEADER_SIZE(Header, Size)\<close>.\<close>

definition CHECK_HEADER_SIZE :: "ctype list \<Rightarrow> nat \<Rightarrow> bool" where
  "CHECK_HEADER_SIZE Header Size \<longleftrightarrow>
     struct_sizeof Header mod 8 = 0 \<and>
     struct_sizeof Header = Size \<and>
     struct_sizeof Header mod struct_alignof Header = 0"

definition ArchiveHeader_members :: "ctype list" where
  "ArchiveHeader_members =
     [Uint32_t, Uint32_t, Array_t Uint32_t BlockOffsetType_Count, Uint32_t, Uint32_t]"

definition ChunkHeader_members :: "ctype list" where
  "ChunkHeader_members = [Enum_Uint32_t, Uint32_t, Uint32_t, Uint32_t]"

definition NamedResourceArrayHeader_members :: "ctype list" where
  "NamedResourceArrayHeader_members = [Uint32_t, Uint32_t]"

definition DataHeaderBase_members :: "ctype list" where
  "DataHeaderBase_members =
     [Enum_Uint32_t, Uint32_t, Array_t Uint32_t DeviceType_Count, Array_t Uint32_t DeviceType_Count]"

definition PRSDataHeader_members :: "ctype list" where
  "PRSDataHeader_members = DataHeaderBase_members @ []"

definition PSODataHeader_members :: "ctype list" where
  "PSODataHeader_members = DataHeaderBase_members @ []"

definition ShadersDataHeader_members :: "ctype list" where
  "ShadersDataHeader_members = DataHeaderBase_members @ []"

definition RPDataHeader_members :: "ctype list" where
  "RPDataHeader_members = [Enum_Uint32_t, Uint32_t]"

subsection \<open>Data headers\<close>

text \<open>\<^verbatim>\<open>InvalidOffset = ~0u\<close>.\<close>

definition InvalidOffset :: Uint32 where
  "InvalidOffset = NOT 0"

type_synonym Uint32Array = "DeviceType \<Rightarrow> Uint32"

record DataHeaderBase =
  Type :: Uint32
  Padding0 :: Uint32
  DeviceSpecificDataSize :: Uint32Array
  DeviceSpecificDataOffset :: Uint32Array

text \<open>
  The constructor \<^verbatim>\<open>DataHeaderBase(ChunkType _Type)\<close>: the sizes are value-initialised,
  the offsets filled with \<^verbatim>\<open>InvalidOffset\<close>.
\<close>

definition DataHeaderBase_ctor :: "ChunkType \<Rightarrow> DataHeaderBase" where
  "DataHeaderBase_ctor t =
     \<lparr>Type = ChunkType_value t, Padding0 = NOT 0,
      DeviceSpecificDataSize = (\<lambda>_. 0),
      DeviceSpecificDataOffset = (\<lambda>_. InvalidOffset)\<rparr>"

definition GetSize :: "DataHeaderBase \<Rightarrow> DeviceType \<Rightarrow> Uint32" where
  "GetSize h DevType = DeviceSpecificDataSize h DevType"

definition GetOffset :: "DataHeaderBase \<Rightarrow> DeviceType \<Rightarrow> Uint32" where
  "GetOffset h DevType = DeviceSpecificDataOffset h DevType"

definition GetEndOffset :: "DataHeaderBase \<Rightarrow> DeviceType \<Rightarrow> Uint32" where
  "GetEndOffset h DevType = GetOffset h DevType + GetSize h DevType"

definition SetSize :: "DataHeaderBase \<Rightarrow> DeviceType \<Rightarrow> Uint32 \<Rightarrow> DataHeaderBase" where
  "SetSize h DevType Size =
     h\<lparr>DeviceSpecificDataSize := (DeviceSpecificDataSize h)(DevType := Size)\<rparr>"


subsection \<open>Render pass header, chunk header, regions\<close>

record RPDataHeader =
  RP_Type :: Uint32
  Padding1 :: Uint32

definition RPDataHeader_ctor :: "ChunkType \<Rightarrow> RPDataHeader" where
  "RPDataHeader_ctor t = \<lparr>RP_Type = ChunkType_value t, Padding1 = NOT 0\<rparr>"

record ChunkHeader =
  Chunk_Type :: Uint32
  Chunk_Size :: Uint32
  Chunk_Offset :: Uint32
  Chunk_Padding :: Uint32

record ArchiveRegion =
  Offset :: Uint32
  Size :: Uint32

text \<open>
  \<^verbatim>\<open>NameToArchiveRegionMap\<close>, an \<^verbatim>\<open>unordered_map\<close> from names to regions, as an
  association list; \<^verbatim>\<open>find\<close> gives the first entry with the key.
\<close>

type_synonym NameToArchiveRegionMap = "(string \<times> ArchiveRegion) list"

record ArchiveDebugInfo_rec =
  GitHash :: string
  APIVersion :: Uint32

record NamedResourcesMap =
  Sign :: NameToArchiveRegionMap
  RenderPass_map :: NameToArchiveRegionMap
  GraphPSO :: NameToArchiveRegionMap
  CompPSO :: NameToArchiveRegionMap
  TilePSO :: NameToArchiveRegionMap
  RayTrPSO :: NameToArchiveRegionMap

subsection \<open>The byte source\<close>

text \<open>
  Modelled from the spec: the interface \<^verbatim>\<open>IArchive\<close>, which the header takes from
  \<^verbatim>\<open>Archive.h\<close>: the byte-source collaborator with the contract
  \<^verbatim>\<open>Read(offset: u64, size: u64) -> bytes | failure\<close>. The archive is its byte string; a
  read of a range that the bytes do not cover fails.
\<close>

type_synonym IArchive = "Uint8 list"

definition IArchive_Read :: "IArchive \<Rightarrow> nat \<Rightarrow> nat \<Rightarrow> Uint8 list option" where
  "IArchive_Read ar off sz =
     (if off + sz \<le> length ar then Some (take sz (drop off ar)) else None)"

text \<open>
  A \<^verbatim>\<open>Uint32\<close> in memory at an offset (all integers of the format are little-endian).
  The callers read inside the buffer.
\<close>

definition read_Uint32 :: "Uint8 list \<Rightarrow> nat \<Rightarrow> Uint32" where
  "read_Uint32 bs off =
     ucast (bs ! off) OR push_bit 8 (ucast (bs ! (off + 1)))
       OR push_bit 16 (ucast (bs ! (off + 2))) OR push_bit 24 (ucast (bs ! (off + 3)))"

text \<open>
  A header struct seen through a pointer into a buffer (\<^verbatim>\<open>reinterpret_cast\<close>): every member
  at its offset in the struct.
\<close>

definition DataHeaderBase_view :: "Uint8 list \<Rightarrow> DataHeaderBase" where
  "DataHeaderBase_view bs =
     \<lparr>Type = read_Uint32 bs 0, Padding0 = read_Uint32 bs 4,
      DeviceSpecificDataSize = (\<lambda>d. read_Uint32 bs (8 + 4 * DeviceType_index d)),
      DeviceSpecificDataOffset = (\<lambda>d. read_Uint32 bs (32 + 4 * DeviceType_index d))\<rparr>"

definition RPDataHeader_view :: "Uint8 list \<Rightarrow> RPDataHeader" where
  "RPDataHeader_view bs = \<lparr>RP_Type = read_Uint32 bs 0, Padding1 = read_Uint32 bs 4\<rparr>"

subsection \<open>Archive blocks and the archive object\<close>

text \<open>
  An \<^verbatim>\<open>ArchiveBlock\<close>; \<^verbatim>\<open>pArchive\<close> is \<open>None\<close> for a null pointer, \<^verbatim>\<open>Memory\<close> is
  empty until the block is loaded.
\<close>

record ArchiveBlock =
  pArchive :: "IArchive option"
  Block_Offset :: Uint32
  Block_Size :: Uint32
  Memory :: "Uint8 list"

definition ArchiveBlock_ctor :: ArchiveBlock where
  "ArchiveBlock_ctor =
     \<lparr>pArchive = None, Block_Offset = InvalidOffset, Block_Size = 0, Memory = []\<rparr>"

definition IsValid :: "ArchiveBlock \<Rightarrow> bool" where
  "IsValid b \<longleftrightarrow>
     pArchive b \<noteq> None \<and> Block_Offset b \<noteq> InvalidOffset \<and> Block_Size b \<noteq> 0"

text \<open>
  The members of \<^verbatim>\<open>DeviceObjectArchive\<close>. Of \<^verbatim>\<open>ShaderRegionsInfo\<close> only the regions are
  kept (a mutex has no content in a sequential model).
\<close>

record DeviceObjectArchive =
  m_BaseOffsets :: TBlockBaseOffsets
  m_DebugInfo :: ArchiveDebugInfo_rec
  m_Chunks :: "ChunkHeader list"
  m_ResMap :: NamedResourcesMap
  m_ShadersHeader :: DataHeaderBase
  m_ShaderRegions :: "DeviceType \<Rightarrow> ArchiveRegion list"
  m_CommonData :: ArchiveBlock
  m_DeviceSpecific :: "BlockOffsetType \<Rightarrow> ArchiveBlock"
  m_pArchive :: IArchive

definition GetBaseOffset :: "DeviceObjectArchive \<Rightarrow> BlockOffsetType \<Rightarrow> Uint32" where
  "GetBaseOffset this t = m_BaseOffsets this t"

subsection \<open>Loading the data of a named resource\<close>

text \<open>
  The template \<^verbatim>\<open>LoadResourceData\<close> is instantiated with a resource data type that
  brings an allocator, the pointer \<^verbatim>\<open>pHeader\<close>, the member \<^verbatim>\<open>ExpectedChunkType\<close> and
  the method \<^verbatim>\<open>Deserialize\<close>. The header type is that of \<^verbatim>\<open>*ResData.pHeader\<close>, one of
  the data header structs; the method is a parameter of the model.
\<close>

datatype HeaderType =
  DataHeaderBase_t | PRSDataHeader_t | PSODataHeader_t | ShadersDataHeader_t | RPDataHeader_t

fun HeaderType_members :: "HeaderType \<Rightarrow> ctype list" where
  "HeaderType_members DataHeaderBase_t = DataHeaderBase_members"
| "HeaderType_members PRSDataHeader_t = PRSDataHeader_members"
| "HeaderType_members PSODataHeader_t = PSODataHeader_members"
| "HeaderType_members ShadersDataHeader_t = ShadersDataHeader_members"
| "HeaderType_members RPDataHeader_t = RPDataHeader_members"

datatype HeaderView = DataHeader_at DataHeaderBase | RPDataHeader_at RPDataHeader

fun HeaderType_view :: "HeaderType \<Rightarrow> Uint8 list \<Rightarrow> HeaderView" where
  "HeaderType_view RPDataHeader_t bs = RPDataHeader_at (RPDataHeader_view bs)"
| "HeaderType_view _ bs = DataHeader_at (DataHeaderBase_view bs)"

text \<open>\<^verbatim>\<open>pHeader->Type\<close>.\<close>

fun HeaderView_Type :: "HeaderView \<Rightarrow> Uint32" where
  "HeaderView_Type (DataHeader_at h) = Type h"
| "HeaderView_Type (RPDataHeader_at h) = RP_Type h"

text \<open>
  Modelled from the spec: the class \<^verbatim>\<open>Serializer\<close> in read mode, which the header
  takes from \<^verbatim>\<open>Serializer.hpp\<close>. The spec has the first bytes of the region interpreted as the
  header and the deserializer consume the remainder: a serializer is the bytes not yet
  consumed, \<^verbatim>\<open>Cast\<close> gives a view of the next \<^verbatim>\<open>sizeof(T)\<close> bytes and steps over them,
  \<^verbatim>\<open>IsEnded\<close> holds when no byte is left. A cast past the end of the buffer has no
  defined result.
\<close>

type_synonym Serializer = "Uint8 list"

definition Serializer_Cast :: "HeaderType \<Rightarrow> Serializer \<Rightarrow> (HeaderView \<times> Serializer) option" where
  "Serializer_Cast T Ser =
     (let n = struct_sizeof (HeaderType_members T)
      in if n \<le> length Ser then Some (HeaderType_view T (take n Ser), drop n Ser) else None)"

definition IsEnded :: "Serializer \<Rightarrow> bool" where
  "IsEnded Ser \<longleftrightarrow> Ser = []"

text \<open>
  The state of a resource data object: the requests its \<^verbatim>\<open>Allocator\<close> has served (size and
  alignment), \<^verbatim>\<open>pHeader\<close> (\<open>None\<close> for a null pointer), \<^verbatim>\<open>ExpectedChunkType\<close>, and the
  rest, which only \<^verbatim>\<open>Deserialize\<close> touches.
\<close>

record 'd ResourceData =
  Allocator :: "(nat \<times> nat) list"
  pHeader :: "HeaderView option"
  ExpectedChunkType :: ChunkType
  Content :: 'd

type_synonym 'd Deserializer =
  "string \<Rightarrow> Serializer \<Rightarrow> 'd ResourceData \<Rightarrow> bool \<times> Serializer \<times> 'd ResourceData"

text \<open>The messages that \<^verbatim>\<open>LoadResourceData\<close> logs and that a failed assertion reports.\<close>

datatype LogMessage =
  Resource_not_present string
  | Failed_to_read_resource string
  | Invalid_chunk_header Uint32 ChunkType
  | Assertion_failed string

text \<open>
  The macro \<^verbatim>\<open>VERIFY_EXPR\<close> is defined outside the header; its effect is a parameter of
  the model. An assertion that holds has no effect. One that fails has no effect where
  assertions are compiled out, reports a message and goes on where they report, and ends
  the call where they are fatal (\<open>None\<close>).
\<close>

datatype VerifyMode = Verify_Off | Verify_Report | Verify_Fatal

fun VERIFY_EXPR :: "VerifyMode \<Rightarrow> string \<Rightarrow> bool \<Rightarrow> LogMessage list option" where
  "VERIFY_EXPR m e True = Some []"
| "VERIFY_EXPR Verify_Off e False = Some []"
| "VERIFY_EXPR Verify_Report e False = Some [Assertion_failed e]"
| "VERIFY_EXPR Verify_Fatal e False = None"

text \<open>
  What a call that returns leaves behind: the returned value, the resource data object,
  the messages logged, the calls of \<^verbatim>\<open>IArchive::Read\<close> issued (offset and size), the
  local serializer when the call got to the deserializer, and the archive object itself
  (the method is \<^verbatim>\<open>const\<close>).
\<close>

record 'd LoadResult =
  Res :: bool
  ResData_out :: "'d ResourceData"
  Log :: "LogMessage list"
  Reads :: "(nat \<times> nat) list"
  Ser_out :: "Serializer option"
  this_out :: DeviceObjectArchive

datatype Fault = Cast_out_of_bounds | Assertion_abort string

definition LoadResourceData ::
  "VerifyMode \<Rightarrow> HeaderType \<Rightarrow> 'd Deserializer \<Rightarrow> DeviceObjectArchive \<Rightarrow>
   NameToArchiveRegionMap \<Rightarrow> string \<Rightarrow> 'd ResourceData \<Rightarrow> Fault + 'd LoadResult" where
  "LoadResourceData vm T Deserialize this NameToRegion ResourceName ResData =
     (case List.find (\<lambda>it. fst it = ResourceName) NameToRegion of
        None \<Rightarrow>
          Inr \<lparr>Res = False, ResData_out = ResData,
               Log = [Resource_not_present ResourceName], Reads = [], Ser_out = None,
               this_out = this\<rparr>
      | Some it \<Rightarrow>
          (case VERIFY_EXPR vm ''SafeStrEqual(ResourceName, it->first.GetStr())''
                  (ResourceName = fst it) of
             None \<Rightarrow> Inl (Assertion_abort ''SafeStrEqual(ResourceName, it->first.GetStr())'')
           | Some log1 \<Rightarrow>
              (let ResourceName1 = fst it;
                   Region = snd it;
                   ResData1 = ResData\<lparr>Allocator :=
                       Allocator ResData @ [(unat (Size Region), DataPtrAlign)]\<rparr>;
                   reads = [(unat (Offset Region), unat (Size Region))]
               in case IArchive_Read (m_pArchive this) (unat (Offset Region)) (unat (Size Region)) of
                    None \<Rightarrow>
                      Inr \<lparr>Res = False, ResData_out = ResData1,
                           Log = log1 @ [Failed_to_read_resource ResourceName1],
                           Reads = reads, Ser_out = None, this_out = this\<rparr>
                  | Some pData \<Rightarrow>
                      (case Serializer_Cast T pData of
                         None \<Rightarrow> Inl Cast_out_of_bounds
                       | Some (hdr, Ser) \<Rightarrow>
                          (let ResData2 = ResData1\<lparr>pHeader := Some hdr\<rparr>
                           in if HeaderView_Type hdr \<noteq> ChunkType_value (ExpectedChunkType ResData2)
                              then
                                Inr \<lparr>Res = False, ResData_out = ResData2,
                                     Log = log1 @ [Invalid_chunk_header (HeaderView_Type hdr)
                                                     (ExpectedChunkType ResData2)],
                                     Reads = reads, Ser_out = None, this_out = this\<rparr>
                              else
                                (case Deserialize ResourceName1 Ser ResData2 of
                                   (Res1, Ser1, ResData3) \<Rightarrow>
                                     (case VERIFY_EXPR vm ''Ser.IsEnded()'' (IsEnded Ser1) of
                                        None \<Rightarrow> Inl (Assertion_abort ''Ser.IsEnded()'')
                                      | Some log2 \<Rightarrow>
                                          Inr \<lparr>Res = Res1, ResData_out = ResData3,
                                               Log = log1 @ log2, Reads = reads,
                                               Ser_out = Some Ser1, this_out = this\<rparr>)))))))"

subsection \<open>Device-specific data\<close>

text \<open>The kinds of failure that the spec names.\<close>

datatype ErrorKind = FormatError | CorruptData | NotFound | IOFailure

text \<open>
  Modelled from the spec: \<^verbatim>\<open>GetBlockOffsetType\<close>, which the header only declares. The spec
  calls it \<^verbatim>\<open>BlockOffsetFor(backend)\<close>, the block of the backend; the two enumerations
  have the same enumerators.
\<close>

fun GetBlockOffsetType :: "DeviceType \<Rightarrow> BlockOffsetType" where
  "GetBlockOffsetType OpenGL = Block_OpenGL"
| "GetBlockOffsetType Direct3D11 = Block_Direct3D11"
| "GetBlockOffsetType Direct3D12 = Block_Direct3D12"
| "GetBlockOffsetType Vulkan = Block_Vulkan"
| "GetBlockOffsetType Metal_MacOS = Block_Metal_MacOS"
| "GetBlockOffsetType Metal_iOS = Block_Metal_iOS"

text \<open>
  Modelled from the spec: \<^verbatim>\<open>GetDeviceSpecificData\<close>, which the header only declares. It
  "reads \<^verbatim>\<open>header.GetSize(backend)\<close> bytes at
  \<^verbatim>\<open>GetBaseOffset(BlockOffsetFor(backend)) + header.GetOffset(backend)\<close>; returns empty if
  the offset is the sentinel", which "is not an error"; a failure of the byte source is
  an \<^verbatim>\<open>IOFailure\<close>, reported by the call. The address is the sum of the two offsets as
  numbers (the byte source takes 64-bit offsets). The result is in memory of the
  allocator, which the model leaves out; the spec gives the expected chunk type no effect
  on the result.
\<close>

definition GetDeviceSpecificData ::
  "DeviceObjectArchive \<Rightarrow> DeviceType \<Rightarrow> DataHeaderBase \<Rightarrow> ChunkType \<Rightarrow> ErrorKind + Uint8 list" where
  "GetDeviceSpecificData this DevType Header ExpectedChunkType' =
     (if GetOffset Header DevType = InvalidOffset then Inr []
      else
        (case IArchive_Read (m_pArchive this)
                (unat (GetBaseOffset this (GetBlockOffsetType DevType)) +
                 unat (GetOffset Header DevType))
                (unat (GetSize Header DevType)) of
           None \<Rightarrow> Inl IOFailure
         | Some bs \<Rightarrow> Inr bs))"

subsection \<open>Construction from a byte source\<close>

record ArchiveHeader =
  MagicNumber :: Uint32
  Version :: Uint32
  BlockBaseOffsets :: TBlockBaseOffsets
  NumChunks :: Uint32
  Padding :: Uint32

definition ArchiveHeader_view :: "Uint8 list \<Rightarrow> ArchiveHeader" where
  "ArchiveHeader_view bs =
     \<lparr>MagicNumber = read_Uint32 bs 0, Version = read_Uint32 bs 4,
      BlockBaseOffsets = (\<lambda>b. read_Uint32 bs (8 + 4 * BlockOffsetType_index b)),
      NumChunks = read_Uint32 bs 32, Padding = read_Uint32 bs 36\<rparr>"

definition ChunkHeader_view :: "Uint8 list \<Rightarrow> ChunkHeader" where
  "ChunkHeader_view bs =
     \<lparr>Chunk_Type = read_Uint32 bs 0, Chunk_Size = read_Uint32 bs 4,
      Chunk_Offset = read_Uint32 bs 8, Chunk_Padding = read_Uint32 bs 12\<rparr>"

text \<open>
  Modelled from the spec: the constructor \<^verbatim>\<open>DeviceObjectArchive(IArchive*)\<close>, which the
  header only declares. It "reads and validates the ArchiveHeader (magic, version); on
  mismatch, fails with a FormatError", "reads \<^verbatim>\<open>NumChunks\<close> ChunkHeaders immediately
  following the header", and "for every chunk, reads the NamedResourceArray at
  \<^verbatim>\<open>chunk.Offset\<close>" and puts a region for every name into the map of the chunk's kind;
  the shaders chunk "has exactly one header (no per-name list)". Construction "fails
  the whole construction on any structural violation": the result is an error or an
  archive object, never both.

  The layout of the array is that of the comments in \<^verbatim>\<open>NamedResourceArrayHeader\<close>: the
  count, then the name lengths, the data sizes and the data offsets, then the names one
  after the other. Where the spec leaves a choice or says nothing, the model does this:
  a name that occurs twice in a chunk, a chunk kind that occurs twice and a chunk of no
  known kind are format errors; an array that does not fit its chunk is corrupt data; a
  failed read is an I/O failure. How the debug info chunk is read and how the ranges of
  the blocks are found are parameters.
\<close>

fun ReadChunkHeaders :: "IArchive \<Rightarrow> nat \<Rightarrow> nat \<Rightarrow> ErrorKind + ChunkHeader list" where
  "ReadChunkHeaders ar off 0 = Inr []"
| "ReadChunkHeaders ar off (Suc n) =
     (case IArchive_Read ar off (struct_sizeof ChunkHeader_members) of
        None \<Rightarrow> Inl IOFailure
      | Some bs \<Rightarrow>
          (case ReadChunkHeaders ar (off + struct_sizeof ChunkHeader_members) n of
             Inl e \<Rightarrow> Inl e
           | Inr cs \<Rightarrow> Inr (ChunkHeader_view bs # cs)))"

definition name_of_bytes :: "Uint8 list \<Rightarrow> string" where
  "name_of_bytes bs = map (\<lambda>b. char_of (unat b)) bs"

text \<open>
  The entries \<open>i, i + 1, \<dots>\<close> of an array of \<open>Count\<close> names in the bytes of a chunk, the
  name of entry \<open>i\<close> starting at \<open>pos\<close>; \<open>n\<close> entries are left.
\<close>

fun ReadNamedEntries ::
  "Uint8 list \<Rightarrow> nat \<Rightarrow> nat \<Rightarrow> nat \<Rightarrow> nat \<Rightarrow> ErrorKind + NameToArchiveRegionMap" where
  "ReadNamedEntries bs Count' i pos 0 = Inr []"
| "ReadNamedEntries bs Count' i pos (Suc n) =
     (let NameLength = unat (read_Uint32 bs (8 + 4 * i));
          DataSize = read_Uint32 bs (8 + 4 * Count' + 4 * i);
          DataOffset = read_Uint32 bs (8 + 8 * Count' + 4 * i)
      in if length bs < pos + NameLength then Inl CorruptData
         else
           (case ReadNamedEntries bs Count' (i + 1) (pos + NameLength) n of
              Inl e \<Rightarrow> Inl e
            | Inr m \<Rightarrow>
                (let name = name_of_bytes (take NameLength (drop pos bs))
                 in if name \<in> fst ` set m then Inl FormatError
                    else Inr ((name, \<lparr>Offset = DataOffset, Size = DataSize\<rparr>) # m))))"

definition ReadNamedResourceRegions ::
  "IArchive \<Rightarrow> ChunkHeader \<Rightarrow> ErrorKind + NameToArchiveRegionMap" where
  "ReadNamedResourceRegions ar Chunk =
     (case IArchive_Read ar (unat (Chunk_Offset Chunk)) (unat (Chunk_Size Chunk)) of
        None \<Rightarrow> Inl IOFailure
      | Some bs \<Rightarrow>
          if length bs < struct_sizeof NamedResourceArrayHeader_members then Inl CorruptData
          else
            (let Count' = unat (read_Uint32 bs 0)
             in if length bs < 8 + 12 * Count' then Inl CorruptData
                else ReadNamedEntries bs Count' 0 (8 + 12 * Count') Count'))"

definition ReadShadersHeader :: "IArchive \<Rightarrow> ChunkHeader \<Rightarrow> ErrorKind + DataHeaderBase" where
  "ReadShadersHeader ar Chunk =
     (case IArchive_Read ar (unat (Chunk_Offset Chunk))
             (struct_sizeof ShadersDataHeader_members) of
        None \<Rightarrow> Inl IOFailure
      | Some bs \<Rightarrow>
          if Type (DataHeaderBase_view bs) \<noteq> ChunkType_value Shaders then Inl CorruptData
          else Inr (DataHeaderBase_view bs))"

type_synonym DebugInfoReader = "IArchive \<Rightarrow> ChunkHeader \<Rightarrow> ErrorKind + ArchiveDebugInfo_rec"

type_synonym BlockRanges =
  "IArchive \<Rightarrow> TBlockBaseOffsets \<Rightarrow> ArchiveBlock \<times> (BlockOffsetType \<Rightarrow> ArchiveBlock)"

text \<open>One chunk, read into the archive object under construction.\<close>

definition ReadChunk ::
  "DebugInfoReader \<Rightarrow> IArchive \<Rightarrow> ChunkHeader \<Rightarrow> DeviceObjectArchive \<Rightarrow>
   ErrorKind + DeviceObjectArchive" where
  "ReadChunk ReadArchiveDebugInfo ar Chunk this =
     (let t = Chunk_Type Chunk;
          named = (\<lambda>put.
            case ReadNamedResourceRegions ar Chunk of
              Inl e \<Rightarrow> Inl e
            | Inr m \<Rightarrow> Inr (this\<lparr>m_ResMap := put m (m_ResMap this)\<rparr>))
      in if t = ChunkType_value ArchiveDebugInfo then
           (case ReadArchiveDebugInfo ar Chunk of
              Inl e \<Rightarrow> Inl e
            | Inr d \<Rightarrow> Inr (this\<lparr>m_DebugInfo := d\<rparr>))
         else if t = ChunkType_value ResourceSignature then named (\<lambda>m r. r\<lparr>Sign := m\<rparr>)
         else if t = ChunkType_value GraphicsPipelineStates then named (\<lambda>m r. r\<lparr>GraphPSO := m\<rparr>)
         else if t = ChunkType_value ComputePipelineStates then named (\<lambda>m r. r\<lparr>CompPSO := m\<rparr>)
         else if t = ChunkType_value RayTracingPipelineStates then named (\<lambda>m r. r\<lparr>RayTrPSO := m\<rparr>)
         else if t = ChunkType_value TilePipelineStates then named (\<lambda>m r. r\<lparr>TilePSO := m\<rparr>)
         else if t = ChunkType_value RenderPass then named (\<lambda>m r. r\<lparr>RenderPass_map := m\<rparr>)
         else if t = ChunkType_value Shaders then
           (case ReadShadersHeader ar Chunk of
              Inl e \<Rightarrow> Inl e
            | Inr h \<Rightarrow> Inr (this\<lparr>m_ShadersHeader := h\<rparr>))
         else Inl FormatError)"

fun ReadChunks ::
  "DebugInfoReader \<Rightarrow> IArchive \<Rightarrow> ChunkHeader list \<Rightarrow> DeviceObjectArchive \<Rightarrow>
   ErrorKind + DeviceObjectArchive" where
  "ReadChunks rd ar [] this = Inr this"
| "ReadChunks rd ar (Chunk # Chunks) this =
     (if Chunk_Type Chunk \<in> Chunk_Type ` set Chunks then Inl FormatError
      else
        (case ReadChunk rd ar Chunk this of
           Inl e \<Rightarrow> Inl e
         | Inr this1 \<Rightarrow> ReadChunks rd ar Chunks this1))"

definition DeviceObjectArchive_ctor ::
  "DebugInfoReader \<Rightarrow> BlockRanges \<Rightarrow> IArchive \<Rightarrow> ErrorKind + DeviceObjectArchive" where
  "DeviceObjectArchive_ctor ReadArchiveDebugInfo Blocks ar =
     (case IArchive_Read ar 0 (struct_sizeof ArchiveHeader_members) of
        None \<Rightarrow> Inl IOFailure
      | Some bs \<Rightarrow>
          (let Header = ArchiveHeader_view bs
           in if MagicNumber Header \<noteq> HeaderMagicNumber then Inl FormatError
              else if Version Header \<noteq> HeaderVersion then Inl FormatError
              else
                (case ReadChunkHeaders ar (struct_sizeof ArchiveHeader_members)
                        (unat (NumChunks Header)) of
                   Inl e \<Rightarrow> Inl e
                 | Inr Chunks \<Rightarrow>
                     ReadChunks ReadArchiveDebugInfo ar Chunks
                       \<lparr>m_BaseOffsets = BlockBaseOffsets Header,
                        m_DebugInfo = \<lparr>GitHash = [], APIVersion = 0\<rparr>,
                        m_Chunks = Chunks,
                        m_ResMap = \<lparr>Sign = [], RenderPass_map = [], GraphPSO = [],
                                    CompPSO = [], TilePSO = [], RayTrPSO = []\<rparr>,
                        m_ShadersHeader = DataHeaderBase_ctor Shaders,
                        m_ShaderRegions = (\<lambda>_. []),
                        m_CommonData = fst (Blocks ar (BlockBaseOffsets Header)),
                        m_DeviceSpecific = snd (Blocks ar (BlockBaseOffsets Header)),
                        m_pArchive = ar\<rparr>)))"

subsection \<open>Removing the data of a device\<close>











subsection \<open>An example archive\<close>

text \<open>
  The scenario of the spec: one resource signature \<open>SigA\<close>, present for Vulkan only, with
  offset 100 and size 50. Its region is the first 60 bytes, a \<^verbatim>\<open>PRSDataHeader\<close> and four
  bytes of description; the block of Vulkan starts at 60, so that the data of \<open>SigA\<close> for
  Vulkan is the last 50 bytes.
\<close>

definition Example_bytes :: "Uint8 list" where
  "Example_bytes =
     [2, 0, 0, 0, 255, 255, 255, 255,
      0, 0, 0, 0, 0, 0, 0, 0, 0, 0, 0, 0, 50, 0, 0, 0, 0, 0, 0, 0, 0, 0, 0, 0,
      255, 255, 255, 255, 255, 255, 255, 255, 255, 255, 255, 255,
      100, 0, 0, 0, 255, 255, 255, 255, 255, 255, 255, 255,
      1, 2, 3, 4] @ replicate 100 0 @ replicate 50 7"

definition Example_archive :: DeviceObjectArchive where
  "Example_archive =
     \<lparr>m_BaseOffsets = (\<lambda>_. InvalidOffset)(Block_Vulkan := 60),
      m_DebugInfo = \<lparr>GitHash = [], APIVersion = 0\<rparr>,
      m_Chunks = [],
      m_ResMap = \<lparr>Sign = [(''SigA'', \<lparr>Offset = 0, Size = 60\<rparr>)], RenderPass_map = [],
                  GraphPSO = [], CompPSO = [], TilePSO = [], RayTrPSO = []\<rparr>,
      m_ShadersHeader = DataHeaderBase_ctor Shaders,
      m_ShaderRegions = (\<lambda>_. []),
      m_CommonData = \<lparr>pArchive = Some Example_bytes, Block_Offset = 0, Block_Size = 60,
                        Memory = []\<rparr>,
      m_DeviceSpecific = (\<lambda>_. ArchiveBlock_ctor)
         (Block_Vulkan := \<lparr>pArchive = Some Example_bytes, Block_Offset = 60,
                            Block_Size = 150, Memory = []\<rparr>),
      m_pArchive = Example_bytes\<rparr>"

definition Example_ResData :: "ChunkType \<Rightarrow> unit ResourceData" where
  "Example_ResData t = \<lparr>Allocator = [], pHeader = None, ExpectedChunkType = t, Content = ()\<rparr>"

text \<open>A deserializer that reads nothing and one that reads everything; both succeed.\<close>

definition Deserialize_nothing :: "unit Deserializer" where
  "Deserialize_nothing name Ser ResData = (True, Ser, ResData)"

definition Deserialize_all :: "unit Deserializer" where
  "Deserialize_all name Ser ResData = (True, [], ResData)"

text \<open>
  An archive header with the lowest bit of the magic number flipped, and one of
  version 3.
\<close>

definition BadMagic_bytes :: "Uint8 list" where
  "BadMagic_bytes = [0x0B, 0, 0, 0xDE, 2, 0, 0, 0] @ replicate 32 0"

definition BadVersion_bytes :: "Uint8 list" where
  "BadVersion_bytes = [0x0A, 0, 0, 0xDE, 3, 0, 0, 0] @ replicate 32 0"

text \<open>
  A well-formed archive: the header, one chunk of resource signatures, and its array with
  the one name \<open>SigA\<close>, of length 4, data size 60 and data offset 80.
\<close>

definition Good_bytes :: "Uint8 list" where
  "Good_bytes =
     [0x0A, 0, 0, 0xDE, 2, 0, 0, 0] @ replicate 24 255 @ [1, 0, 0, 0, 255, 255, 255, 255] @
     [2, 0, 0, 0, 24, 0, 0, 0, 56, 0, 0, 0, 255, 255, 255, 255] @
     [1, 0, 0, 0, 255, 255, 255, 255, 4, 0, 0, 0, 60, 0, 0, 0, 80, 0, 0, 0, 83, 105, 103, 65]"



definition No_debug_info :: DebugInfoReader where
  "No_debug_info ar Chunk = Inr \<lparr>GitHash = [], APIVersion = 0\<rparr>"

definition Whole_archive_blocks :: BlockRanges where
  "Whole_archive_blocks ar offs =
     (\<lparr>pArchive = Some ar, Block_Offset = 0, Block_Size = word_of_nat (length ar), Memory = []\<rparr>,
      (\<lambda>_. ArchiveBlock_ctor))"

section \<open>Properties\<close>

lemma InvalidOffset_value: "InvalidOffset = 0xFFFFFFFF"
  by (simp add: InvalidOffset_def)

lemma unat_InvalidOffset: "unat InvalidOffset = 4294967295"
  by (simp add: InvalidOffset_value)

text \<open>
  Claim C8. Every fixed on-disk header struct passes the static assertions of
  \<^verbatim>\<open>CHECK_HEADER_SIZE\<close> with its declared size, so its size is that constant and a
  multiple of 8: 40 bytes for \<^verbatim>\<open>ArchiveHeader\<close>, 16 for \<^verbatim>\<open>ChunkHeader\<close>, 8 for
  \<^verbatim>\<open>NamedResourceArrayHeader\<close>, 56 for \<^verbatim>\<open>DataHeaderBase\<close>, \<^verbatim>\<open>PRSDataHeader\<close>,
  \<^verbatim>\<open>PSODataHeader\<close> and \<^verbatim>\<open>ShadersDataHeader\<close>, and 8 for \<^verbatim>\<open>RPDataHeader\<close>.
\<close>

theorem header_struct_sizes:
  "CHECK_HEADER_SIZE ArchiveHeader_members 40 \<and> struct_sizeof ArchiveHeader_members = 40 \<and>
   CHECK_HEADER_SIZE ChunkHeader_members 16 \<and> struct_sizeof ChunkHeader_members = 16 \<and>
   CHECK_HEADER_SIZE NamedResourceArrayHeader_members 8 \<and>
   struct_sizeof NamedResourceArrayHeader_members = 8 \<and>
   CHECK_HEADER_SIZE DataHeaderBase_members 56 \<and> struct_sizeof DataHeaderBase_members = 56 \<and>
   CHECK_HEADER_SIZE PRSDataHeader_members 56 \<and> struct_sizeof PRSDataHeader_members = 56 \<and>
   CHECK_HEADER_SIZE PSODataHeader_members 56 \<and> struct_sizeof PSODataHeader_members = 56 \<and>
   CHECK_HEADER_SIZE ShadersDataHeader_members 56 \<and>
   struct_sizeof ShadersDataHeader_members = 56 \<and>
   CHECK_HEADER_SIZE RPDataHeader_members 8 \<and> struct_sizeof RPDataHeader_members = 8 \<and>
   (40::nat) mod 8 = 0 \<and> (16::nat) mod 8 = 0 \<and> (8::nat) mod 8 = 0 \<and> (56::nat) mod 8 = 0"
  by (simp add: CHECK_HEADER_SIZE_def struct_sizeof_def struct_alignof_def align_up_def
      ArchiveHeader_members_def ChunkHeader_members_def NamedResourceArrayHeader_members_def
      DataHeaderBase_members_def PRSDataHeader_members_def PSODataHeader_members_def
      ShadersDataHeader_members_def RPDataHeader_members_def
      BlockOffsetType_Count_def DeviceType_Count_def)

text \<open>
  Claim C10. \<^verbatim>\<open>GetEndOffset\<close> is the sum of the offset and the size in unsigned 32-bit
  arithmetic, that is modulo \<open>2 ^ 32\<close>. For an absent device type, whose offset is
  \<^verbatim>\<open>InvalidOffset = 0xFFFFFFFF\<close>, the sum wraps around to the size minus one.
\<close>

theorem GetEndOffset_modulo:
  "GetEndOffset H B = GetOffset H B + GetSize H B \<and>
   unat (GetEndOffset H B) = (unat (GetOffset H B) + unat (GetSize H B)) mod 2 ^ 32 \<and>
   (GetOffset H B = InvalidOffset \<longrightarrow> GetEndOffset H B = GetSize H B - 1) \<and>
   (GetOffset H B = InvalidOffset \<and> GetSize H B \<noteq> 0 \<longrightarrow>
      unat (GetEndOffset H B) = unat (GetSize H B) - 1 \<and>
      unat (GetEndOffset H B) < unat InvalidOffset)"
proof -
  have sum: "GetEndOffset H B = GetOffset H B + GetSize H B"
    by (simp add: GetEndOffset_def)
  have md: "unat (GetEndOffset H B) = (unat (GetOffset H B) + unat (GetSize H B)) mod 2 ^ 32"
    by (simp add: GetEndOffset_def unat_word_ariths)
  have wrap: "GetEndOffset H B = GetSize H B - 1" if "GetOffset H B = InvalidOffset"
    using that by (simp add: GetEndOffset_def InvalidOffset_def)
  have below: "unat (GetEndOffset H B) = unat (GetSize H B) - 1 \<and>
      unat (GetEndOffset H B) < unat InvalidOffset"
    if inv: "GetOffset H B = InvalidOffset" and nz: "GetSize H B \<noteq> 0"
  proof -
    have pos: "0 < unat (GetSize H B)"
      using nz by (simp add: unat_gt_0)
    have lt: "unat (GetSize H B) < 2 ^ 32"
      using unsigned_less [of "GetSize H B", where ?'a = nat] by simp
    have "unat (GetSize H B - 1) = unat (GetSize H B) - 1"
      using nz by (simp add: unat_minus_one)
    then show ?thesis
      using wrap [OF inv] pos lt by (simp add: unat_InvalidOffset)
  qed
  show ?thesis
    using sum md wrap below by blast
qed

theorem GetEndOffset_modulo_witness:
  "GetOffset (SetSize (DataHeaderBase_ctor ResourceSignature) Vulkan 50) Vulkan = InvalidOffset \<and>
   GetSize (SetSize (DataHeaderBase_ctor ResourceSignature) Vulkan 50) Vulkan \<noteq> 0 \<and>
   GetEndOffset (SetSize (DataHeaderBase_ctor ResourceSignature) Vulkan 50) Vulkan = 49 \<and>
   unat (GetEndOffset (SetSize (DataHeaderBase_ctor ResourceSignature) Vulkan 50) Vulkan) = 49"
proof -
  let ?H = "SetSize (DataHeaderBase_ctor ResourceSignature) Vulkan 50"
  have off: "GetOffset ?H Vulkan = InvalidOffset"
    by (simp add: GetOffset_def SetSize_def DataHeaderBase_ctor_def)
  have sz: "GetSize ?H Vulkan = 50"
    by (simp add: GetSize_def SetSize_def DataHeaderBase_ctor_def)
  have "GetEndOffset ?H Vulkan = GetSize ?H Vulkan - 1"
    using GetEndOffset_modulo [of ?H Vulkan] off by blast
  then have "GetEndOffset ?H Vulkan = 49"
    by (simp only: sz) simp
  then show ?thesis
    using off sz by simp
qed

lemma header_member_offsets:
  "member_offsets 0 ArchiveHeader_members = [0, 4, 8, 32, 36]"
  "member_offsets 0 ChunkHeader_members = [0, 4, 8, 12]"
  "member_offsets 0 NamedResourceArrayHeader_members = [0, 4]"
  "member_offsets 0 DataHeaderBase_members = [0, 4, 8, 32]"
  "member_offsets 0 RPDataHeader_members = [0, 4]"
  by (simp_all add: DataHeaderBase_members_def ArchiveHeader_members_def ChunkHeader_members_def
      NamedResourceArrayHeader_members_def RPDataHeader_members_def align_up_def
      DeviceType_Count_def BlockOffsetType_Count_def)

lemma struct_sizes: "struct_sizeof DataHeaderBase_members = 56" "struct_sizeof PRSDataHeader_members = 56"
  "struct_sizeof PSODataHeader_members = 56" "struct_sizeof ShadersDataHeader_members = 56"
  "struct_sizeof RPDataHeader_members = 8"
  by (simp_all add: struct_sizeof_def struct_alignof_def align_up_def
      DataHeaderBase_members_def PRSDataHeader_members_def PSODataHeader_members_def
      ShadersDataHeader_members_def RPDataHeader_members_def DeviceType_Count_def)

lemma find_key: "List.find (\<lambda>it. fst it = n) M = Some it \<Longrightarrow> fst it = n"
  by (auto simp: find_Some_iff)

lemma find_miss: "n \<notin> fst ` set M \<Longrightarrow> List.find (\<lambda>it. fst it = n) M = None"
  by (force simp: find_None_iff)

text \<open>
  Claim C3. For a name that is not a key of the region map, \<^verbatim>\<open>LoadResourceData\<close> returns
  \<open>False\<close> after logging that the resource is not present: it never succeeds, issues no
  read of the byte source, and leaves the archive object and the resource data object as
  they were.
\<close>

theorem LoadResourceData_not_found:
  assumes "ResourceName \<notin> fst ` set NameToRegion"
  shows "LoadResourceData vm T Deserialize this NameToRegion ResourceName ResData =
     Inr \<lparr>Res = False, ResData_out = ResData, Log = [Resource_not_present ResourceName],
          Reads = [], Ser_out = None, this_out = this\<rparr>"
  using find_miss [OF assms] by (simp add: LoadResourceData_def)

theorem LoadResourceData_not_found_witness:
  "''nonexistent'' \<notin> fst ` set (Sign (m_ResMap Example_archive)) \<and>
   LoadResourceData Verify_Off PRSDataHeader_t Deserialize_all Example_archive
       (Sign (m_ResMap Example_archive)) ''nonexistent'' (Example_ResData ResourceSignature) =
     Inr \<lparr>Res = False, ResData_out = Example_ResData ResourceSignature,
          Log = [Resource_not_present ''nonexistent''],
          Reads = [], Ser_out = None, this_out = Example_archive\<rparr>"
proof -
  have miss: "''nonexistent'' \<notin> fst ` set (Sign (m_ResMap Example_archive))"
    by (simp add: Example_archive_def)
  show ?thesis
    using miss LoadResourceData_not_found [OF miss] by simp
qed

lemma Example_SigA_loads:
  "\<exists>r. LoadResourceData Verify_Fatal PRSDataHeader_t Deserialize_all Example_archive
         (Sign (m_ResMap Example_archive)) ''SigA'' (Example_ResData ResourceSignature) = Inr r \<and>
     Res r \<and> Ser_out r = Some []"
proof -
  have ty: "Type (DataHeaderBase_view (take 56 Example_bytes)) = 2"
    by (simp add: DataHeaderBase_view_def read_Uint32_def Example_bytes_def)
  have rd: "IArchive_Read Example_bytes 0 60 = Some (take 60 Example_bytes)"
    by (simp add: IArchive_Read_def Example_bytes_def)
  have cast: "Serializer_Cast PRSDataHeader_t (take 60 Example_bytes) =
      Some (DataHeader_at (DataHeaderBase_view (take 56 Example_bytes)), [1, 2, 3, 4])"
    by (simp add: Serializer_Cast_def struct_sizes Example_bytes_def)
  show ?thesis
    by (simp add: LoadResourceData_def Example_archive_def rd cast ty Example_ResData_def
        Deserialize_all_def IsEnded_def)
qed

lemma LoadResourceData_mismatch_result:
  assumes fnd: "List.find (\<lambda>it. fst it = ResourceName) NameToRegion = Some it"
    and rd: "IArchive_Read (m_pArchive this) (unat (Offset (snd it))) (unat (Size (snd it))) = Some pData"
    and cast: "Serializer_Cast T pData = Some (hdr, Ser)"
    and tag: "HeaderView_Type hdr \<noteq> ChunkType_value (ExpectedChunkType ResData)"
  shows "LoadResourceData vm T Deserialize this NameToRegion ResourceName ResData =
     Inr \<lparr>Res = False,
          ResData_out = ResData\<lparr>Allocator := Allocator ResData @ [(unat (Size (snd it)), DataPtrAlign)],
                                 pHeader := Some hdr\<rparr>,
          Log = [Invalid_chunk_header (HeaderView_Type hdr) (ExpectedChunkType ResData)],
          Reads = [(unat (Offset (snd it)), unat (Size (snd it)))], Ser_out = None, this_out = this\<rparr>"
  using find_key [OF fnd] fnd rd cast tag
  by (simp add: LoadResourceData_def Let_def)


text \<open>
  Claim C4. When the header at the start of the resource's region carries a type tag other
  than the expected chunk type, \<^verbatim>\<open>LoadResourceData\<close> returns \<open>False\<close> after the
  comparison of the tags, logging the invalid chunk header, and without getting to the
  deserializer. The archive object is unchanged, so every later call, for any resource,
  does what it would have done before.
\<close>

theorem LoadResourceData_type_mismatch:
  assumes fnd: "List.find (\<lambda>it. fst it = ResourceName) NameToRegion = Some it"
    and rd: "IArchive_Read (m_pArchive this) (unat (Offset (snd it))) (unat (Size (snd it))) = Some pData"
    and cast: "Serializer_Cast T pData = Some (hdr, Ser)"
    and tag: "HeaderView_Type hdr \<noteq> ChunkType_value (ExpectedChunkType ResData)"
  shows "\<exists>r. LoadResourceData vm T Deserialize this NameToRegion ResourceName ResData = Inr r \<and>
     \<not> Res r \<and>
     Log r = [Invalid_chunk_header (HeaderView_Type hdr) (ExpectedChunkType ResData)] \<and>
     Ser_out r = None \<and> this_out r = this \<and>
     (\<forall>vm' T' Deserialize' NameToRegion' ResourceName' ResData'.
        LoadResourceData vm' T' (Deserialize' :: 'a Deserializer) (this_out r) NameToRegion'
            ResourceName' ResData' =
        LoadResourceData vm' T' Deserialize' this NameToRegion' ResourceName' ResData')"
  by (simp add: LoadResourceData_mismatch_result [OF fnd rd cast tag])

theorem LoadResourceData_type_mismatch_witness:
  "\<exists>r. LoadResourceData Verify_Fatal PSODataHeader_t Deserialize_all Example_archive
         (Sign (m_ResMap Example_archive)) ''SigA'' (Example_ResData GraphicsPipelineStates) = Inr r \<and>
     \<not> Res r \<and> Log r = [Invalid_chunk_header 2 GraphicsPipelineStates] \<and>
     this_out r = Example_archive \<and>
     (\<exists>r2. LoadResourceData Verify_Fatal PRSDataHeader_t Deserialize_all (this_out r)
         (Sign (m_ResMap (this_out r))) ''SigA'' (Example_ResData ResourceSignature) = Inr r2 \<and>
        Res r2)"
proof -
  let ?it = "(''SigA'', \<lparr>Offset = 0, Size = 60\<rparr>)"
  let ?pData = "take 60 Example_bytes"
  let ?hdr = "DataHeader_at (DataHeaderBase_view (take 56 Example_bytes))"
  have fnd: "List.find (\<lambda>it. fst it = ''SigA'') (Sign (m_ResMap Example_archive)) = Some ?it"
    by (simp add: Example_archive_def)
  have rd: "IArchive_Read (m_pArchive Example_archive) (unat (Offset (snd ?it))) (unat (Size (snd ?it)))
      = Some ?pData"
    by (simp add: Example_archive_def IArchive_Read_def Example_bytes_def)
  have cast: "Serializer_Cast PSODataHeader_t ?pData = Some (?hdr, [1, 2, 3, 4])"
    by (simp add: Serializer_Cast_def struct_sizes Example_bytes_def)
  have ty: "HeaderView_Type ?hdr = 2"
    by (simp add: DataHeaderBase_view_def read_Uint32_def Example_bytes_def)
  have tag: "HeaderView_Type ?hdr \<noteq> ChunkType_value (ExpectedChunkType (Example_ResData GraphicsPipelineStates))"
    by (simp only: ty) (simp add: Example_ResData_def)
  from LoadResourceData_type_mismatch [OF fnd rd cast tag, of Verify_Fatal Deserialize_all]
  obtain r where r: "LoadResourceData Verify_Fatal PSODataHeader_t Deserialize_all Example_archive
         (Sign (m_ResMap Example_archive)) ''SigA'' (Example_ResData GraphicsPipelineStates) = Inr r"
    "\<not> Res r"
    "Log r = [Invalid_chunk_header (HeaderView_Type ?hdr)
                (ExpectedChunkType (Example_ResData GraphicsPipelineStates))]"
    "this_out r = Example_archive"
    by blast
  have lg: "Log r = [Invalid_chunk_header 2 GraphicsPipelineStates]"
    using r(3) by (simp only: ty) (simp add: Example_ResData_def)
  have later: "\<exists>r2. LoadResourceData Verify_Fatal PRSDataHeader_t Deserialize_all (this_out r)
         (Sign (m_ResMap (this_out r))) ''SigA'' (Example_ResData ResourceSignature) = Inr r2 \<and>
        Res r2"
    using Example_SigA_loads by (auto simp: r(4))
  show ?thesis
    using r(1,2,4) lg later by blast
qed

lemma VERIFY_EXPR_Some:
  "VERIFY_EXPR vm e b = Some msgs \<Longrightarrow>
     (vm = Verify_Fatal \<longrightarrow> b) \<and> (vm = Verify_Report \<and> \<not> b \<longrightarrow> msgs = [Assertion_failed e])"
  by (cases vm; cases b) auto

text \<open>
  Claim C5, as amended. A call of \<^verbatim>\<open>LoadResourceData\<close> that returns \<open>True\<close> has run the
  deserializer, which returned \<open>True\<close>. That the deserializer consumed every byte is
  checked by the assertion \<^verbatim>\<open>VERIFY_EXPR(Ser.IsEnded())\<close> only, which does not change
  the value returned: where a failed assertion ends the call, a call that returns
  \<open>True\<close> has left no byte unconsumed; where a failed assertion is reported, unconsumed
  bytes are reported; where assertions are compiled out, nothing more holds.
\<close>

theorem LoadResourceData_success_checked:
  assumes ret: "LoadResourceData vm T Deserialize this NameToRegion ResourceName ResData = Inr r"
    and ok: "Res r"
  shows "\<exists>Ser1. Ser_out r = Some Ser1 \<and>
     (\<exists>name Ser0 ResData0. Deserialize name Ser0 ResData0 = (True, Ser1, ResData_out r)) \<and>
     (vm = Verify_Fatal \<longrightarrow> IsEnded Ser1) \<and>
     (vm = Verify_Report \<and> \<not> IsEnded Ser1 \<longrightarrow> Assertion_failed ''Ser.IsEnded()'' \<in> set (Log r)) \<and>
     this_out r = this"
  using ret ok
  apply (simp add: LoadResourceData_def Let_def split: option.splits if_splits prod.splits)
  apply (auto dest!: VERIFY_EXPR_Some)
     apply blast+
  done

theorem LoadResourceData_success_checked_witness:
  "\<exists>r. LoadResourceData Verify_Fatal PRSDataHeader_t Deserialize_all Example_archive
         (Sign (m_ResMap Example_archive)) ''SigA'' (Example_ResData ResourceSignature) = Inr r \<and>
     Res r \<and> Ser_out r = Some [] \<and> IsEnded []"
proof -
  from Example_SigA_loads obtain r where
    r: "LoadResourceData Verify_Fatal PRSDataHeader_t Deserialize_all Example_archive
         (Sign (m_ResMap Example_archive)) ''SigA'' (Example_ResData ResourceSignature) = Inr r"
      "Res r" "Ser_out r = Some []"
    by blast
  from LoadResourceData_success_checked [OF r(1) r(2)] r show ?thesis
    by auto
qed

text \<open>
  Claim C5 as stated fails: with assertions compiled out and a deserializer that returns
  \<open>True\<close> and reads nothing, the call on \<open>SigA\<close> returns \<open>True\<close> with the four bytes
  after the header unconsumed.
\<close>

theorem LoadResourceData_unconsumed_counterexample:
  "\<not> isl (LoadResourceData Verify_Off PRSDataHeader_t Deserialize_nothing Example_archive
         (Sign (m_ResMap Example_archive)) ''SigA'' (Example_ResData ResourceSignature)) \<and>
   Res (projr (LoadResourceData Verify_Off PRSDataHeader_t Deserialize_nothing Example_archive
         (Sign (m_ResMap Example_archive)) ''SigA'' (Example_ResData ResourceSignature))) \<and>
   Ser_out (projr (LoadResourceData Verify_Off PRSDataHeader_t Deserialize_nothing Example_archive
         (Sign (m_ResMap Example_archive)) ''SigA'' (Example_ResData ResourceSignature)))
     = Some [1, 2, 3, 4] \<and>
   \<not> IsEnded [1, 2, 3, 4]"
proof -
  have ty: "Type (DataHeaderBase_view (take 56 Example_bytes)) = 2"
    by (simp add: DataHeaderBase_view_def read_Uint32_def Example_bytes_def)
  have rd: "IArchive_Read Example_bytes 0 60 = Some (take 60 Example_bytes)"
    by (simp add: IArchive_Read_def Example_bytes_def)
  have cast: "Serializer_Cast PRSDataHeader_t (take 60 Example_bytes) =
      Some (DataHeader_at (DataHeaderBase_view (take 56 Example_bytes)), [1, 2, 3, 4])"
    by (simp add: Serializer_Cast_def struct_sizes Example_bytes_def)
  show ?thesis
    by (simp add: LoadResourceData_def Example_archive_def rd cast ty Example_ResData_def
        Deserialize_nothing_def IsEnded_def)
qed

lemma IArchive_Read_Some:
  "IArchive_Read ar off sz = Some bs \<Longrightarrow> bs = take sz (drop off ar) \<and> length bs = sz \<and> off + sz \<le> length ar"
  by (auto simp: IArchive_Read_def split: if_splits)

text \<open>
  Claim C2. When the header's offset for the device is the sentinel,
  \<^verbatim>\<open>GetDeviceSpecificData\<close> returns an empty result and no error. Otherwise the bytes it
  returns are the \<^verbatim>\<open>GetSize\<close> bytes of the archive at the address
  \<^verbatim>\<open>GetBaseOffset(GetBlockOffsetType(DevType)) + GetOffset(DevType)\<close>, whenever the
  byte source holds them; a read that fails is reported as an I/O failure.
\<close>

theorem GetDeviceSpecificData_result:
  "(GetOffset H B = InvalidOffset \<longrightarrow> GetDeviceSpecificData this B H k = Inr []) \<and>
   (GetOffset H B \<noteq> InvalidOffset \<longrightarrow>
      (\<forall>bs. IArchive_Read (m_pArchive this)
              (unat (GetBaseOffset this (GetBlockOffsetType B)) + unat (GetOffset H B))
              (unat (GetSize H B)) = Some bs \<longrightarrow>
            GetDeviceSpecificData this B H k = Inr bs \<and>
            length bs = unat (GetSize H B) \<and>
            bs = take (unat (GetSize H B))
                   (drop (unat (GetBaseOffset this (GetBlockOffsetType B)) + unat (GetOffset H B))
                      (m_pArchive this))) \<and>
      (IArchive_Read (m_pArchive this)
              (unat (GetBaseOffset this (GetBlockOffsetType B)) + unat (GetOffset H B))
              (unat (GetSize H B)) = None \<longrightarrow>
            GetDeviceSpecificData this B H k = Inl IOFailure))"
  by (auto simp: GetDeviceSpecificData_def dest: IArchive_Read_Some)

theorem GetDeviceSpecificData_result_witness:
  "GetOffset (DataHeaderBase_view (take 56 Example_bytes)) Direct3D12 = InvalidOffset \<and>
   GetDeviceSpecificData Example_archive Direct3D12 (DataHeaderBase_view (take 56 Example_bytes))
       ResourceSignature = Inr [] \<and>
   GetOffset (DataHeaderBase_view (take 56 Example_bytes)) Vulkan = 100 \<and>
   GetSize (DataHeaderBase_view (take 56 Example_bytes)) Vulkan = 50 \<and>
   GetBaseOffset Example_archive (GetBlockOffsetType Vulkan) = 60 \<and>
   IArchive_Read (m_pArchive Example_archive) 160 50 = Some (replicate 50 7) \<and>
   GetDeviceSpecificData Example_archive Vulkan (DataHeaderBase_view (take 56 Example_bytes))
       ResourceSignature = Inr (replicate 50 7)"
proof -
  let ?H = "DataHeaderBase_view (take 56 Example_bytes)"
  have d3d: "GetOffset ?H Direct3D12 = InvalidOffset"
    by (simp add: DataHeaderBase_view_def read_Uint32_def Example_bytes_def GetOffset_def
        InvalidOffset_def)
  have off: "GetOffset ?H Vulkan = 100"
    by (simp add: DataHeaderBase_view_def read_Uint32_def Example_bytes_def GetOffset_def)
  have sz: "GetSize ?H Vulkan = 50"
    by (simp add: DataHeaderBase_view_def read_Uint32_def Example_bytes_def GetSize_def)
  have base: "GetBaseOffset Example_archive (GetBlockOffsetType Vulkan) = 60"
    by (simp add: GetBaseOffset_def Example_archive_def)
  have rd: "IArchive_Read (m_pArchive Example_archive) 160 50 = Some (replicate 50 7)"
    by (simp add: IArchive_Read_def Example_archive_def Example_bytes_def)
  have ne: "GetOffset ?H Vulkan \<noteq> InvalidOffset"
    by (simp add: off InvalidOffset_def)
  have rd': "IArchive_Read (m_pArchive Example_archive)
      (unat (GetBaseOffset Example_archive (GetBlockOffsetType Vulkan)) + unat (GetOffset ?H Vulkan))
      (unat (GetSize ?H Vulkan)) = Some (replicate 50 7)"
    by (simp only: off sz base) (simp add: rd)
  have a: "GetDeviceSpecificData Example_archive Direct3D12 ?H ResourceSignature = Inr []"
    using GetDeviceSpecificData_result [of ?H Direct3D12 Example_archive ResourceSignature] d3d
    by blast
  have b: "GetDeviceSpecificData Example_archive Vulkan ?H ResourceSignature = Inr (replicate 50 7)"
    using GetDeviceSpecificData_result [of ?H Vulkan Example_archive ResourceSignature] ne rd'
    by blast
  show ?thesis
    using d3d off sz base rd a b by simp
qed

lemma flip_bit_neq: "i < 32 \<Longrightarrow> (w :: Uint32) XOR push_bit i 1 \<noteq> w"
proof
  assume i: "i < 32" and eq: "w XOR push_bit i 1 = w"
  have "bit (w XOR push_bit i 1) i = (\<not> bit w i)"
    using i by (simp add: bit_simps)
  then show False using eq by simp
qed

text \<open>
  Claim C6. Construction from bytes whose header has a magic number other than
  \<^verbatim>\<open>0xDE00000A\<close>, be it by a single bit, or a version other than 2, fails with a format
  error: the result is the error and no archive object.
\<close>

theorem ctor_rejects_bad_header:
  assumes hdr: "IArchive_Read ar 0 (struct_sizeof ArchiveHeader_members) = Some bs"
  shows "(MagicNumber (ArchiveHeader_view bs) \<noteq> HeaderMagicNumber \<or>
          Version (ArchiveHeader_view bs) \<noteq> HeaderVersion \<longrightarrow>
            DeviceObjectArchive_ctor rd blocks ar = Inl FormatError \<and>
            (\<forall>this. DeviceObjectArchive_ctor rd blocks ar \<noteq> Inr this)) \<and>
         (\<forall>i<32. MagicNumber (ArchiveHeader_view bs) = HeaderMagicNumber XOR push_bit i 1 \<longrightarrow>
            DeviceObjectArchive_ctor rd blocks ar = Inl FormatError)"
proof -
  have bad: "DeviceObjectArchive_ctor rd blocks ar = Inl FormatError"
    if "MagicNumber (ArchiveHeader_view bs) \<noteq> HeaderMagicNumber \<or>
        Version (ArchiveHeader_view bs) \<noteq> HeaderVersion"
    using that hdr by (auto simp: DeviceObjectArchive_ctor_def Let_def)
  have flip: "DeviceObjectArchive_ctor rd blocks ar = Inl FormatError"
    if "i < 32" and "MagicNumber (ArchiveHeader_view bs) = HeaderMagicNumber XOR push_bit i 1" for i
    using bad flip_bit_neq [OF that(1), of HeaderMagicNumber] that(2) by simp
  show ?thesis
    using bad flip by auto
qed

lemma ctor_well_formed_example:
  "(case DeviceObjectArchive_ctor No_debug_info Whole_archive_blocks Good_bytes of
      Inl e \<Rightarrow> False
    | Inr this \<Rightarrow>
        Sign (m_ResMap this) = [(''SigA'', \<lparr>Offset = 80, Size = 60\<rparr>)] \<and>
        m_BaseOffsets this Block_Vulkan = InvalidOffset \<and> length (m_Chunks this) = 1)"
  by code_simp

lemma ArchiveHeader_size: "struct_sizeof ArchiveHeader_members = 40"
  by (simp add: struct_sizeof_def struct_alignof_def align_up_def ArchiveHeader_members_def
      BlockOffsetType_Count_def)

theorem ctor_rejects_bad_header_witness:
  "IArchive_Read BadMagic_bytes 0 (struct_sizeof ArchiveHeader_members) = Some BadMagic_bytes \<and>
   MagicNumber (ArchiveHeader_view BadMagic_bytes) = HeaderMagicNumber XOR push_bit 0 1 \<and>
   MagicNumber (ArchiveHeader_view BadMagic_bytes) \<noteq> HeaderMagicNumber \<and>
   DeviceObjectArchive_ctor No_debug_info Whole_archive_blocks BadMagic_bytes = Inl FormatError \<and>
   IArchive_Read BadVersion_bytes 0 (struct_sizeof ArchiveHeader_members) = Some BadVersion_bytes \<and>
   MagicNumber (ArchiveHeader_view BadVersion_bytes) = HeaderMagicNumber \<and>
   Version (ArchiveHeader_view BadVersion_bytes) = 3 \<and>
   DeviceObjectArchive_ctor No_debug_info Whole_archive_blocks BadVersion_bytes = Inl FormatError"
proof -
  have r1: "IArchive_Read BadMagic_bytes 0 (struct_sizeof ArchiveHeader_members) = Some BadMagic_bytes"
    by (simp add: ArchiveHeader_size IArchive_Read_def BadMagic_bytes_def)
  have r2: "IArchive_Read BadVersion_bytes 0 (struct_sizeof ArchiveHeader_members) = Some BadVersion_bytes"
    by (simp add: ArchiveHeader_size IArchive_Read_def BadVersion_bytes_def)
  have m1: "MagicNumber (ArchiveHeader_view BadMagic_bytes) = 0xDE00000B"
    by (simp add: ArchiveHeader_view_def read_Uint32_def BadMagic_bytes_def)
  have m2: "MagicNumber (ArchiveHeader_view BadVersion_bytes) = 0xDE00000A"
    by (simp add: ArchiveHeader_view_def read_Uint32_def BadVersion_bytes_def)
  have v2: "Version (ArchiveHeader_view BadVersion_bytes) = 3"
    by (simp add: ArchiveHeader_view_def read_Uint32_def BadVersion_bytes_def)
  have x: "HeaderMagicNumber XOR push_bit 0 1 = 0xDE00000B"
    by (simp add: HeaderMagicNumber_def)
  have f1: "MagicNumber (ArchiveHeader_view BadMagic_bytes) = HeaderMagicNumber XOR push_bit 0 1"
    by (simp only: m1 x)
  have ne1: "MagicNumber (ArchiveHeader_view BadMagic_bytes) \<noteq> HeaderMagicNumber"
    by (simp add: m1 HeaderMagicNumber_def)
  have m2': "MagicNumber (ArchiveHeader_view BadVersion_bytes) = HeaderMagicNumber"
    by (simp add: m2 HeaderMagicNumber_def)
  have ne2: "Version (ArchiveHeader_view BadVersion_bytes) \<noteq> HeaderVersion"
    by (simp add: v2 HeaderVersion_def)
  have c1: "DeviceObjectArchive_ctor No_debug_info Whole_archive_blocks BadMagic_bytes = Inl FormatError"
    using ctor_rejects_bad_header [OF r1, of No_debug_info Whole_archive_blocks] ne1 by blast
  have c2: "DeviceObjectArchive_ctor No_debug_info Whole_archive_blocks BadVersion_bytes = Inl FormatError"
    using ctor_rejects_bad_header [OF r2, of No_debug_info Whole_archive_blocks] ne2 by blast
  show ?thesis
    using r1 f1 ne1 c1 r2 m2' v2 c2 by blast
qed






































end
